theory Spec2Isabelle
  imports Main "HOL-Library.Word"
begin

section \<open>The ZamaFHEPackage contract\<close>

text \<open>
  The contract \<^verbatim>\<open>ZamaFHEPackage\<close> (Solidity, in \<^verbatim>\<open>src/frontend/web/src/App.tsx\<close>
  from line 661) stores encrypted packages, asks a decryption oracle to reveal them,
  commits the revealed strings in a callback and keeps an encrypted count per
  revealed version string.

  Each public function is a HOL function from the storage before the call to either
  the revert reason or the storage after it. A Solidity \<^verbatim>\<open>mapping\<close> is total
  (a key never written reads as zero), so it is a HOL function; \<^verbatim>\<open>uint256\<close> is a
  256-bit word; a \<^verbatim>\<open>string\<close> is a list of characters.
\<close>

subsection \<open>Values\<close>

type_synonym uint256 = "256 word"
type_synonym uint32 = "32 word"
type_synonym bytes = "8 word list"

text \<open>
  Modelled from the spec: the library \<^verbatim>\<open>FHE\<close> (\<^verbatim>\<open>@fhevm/solidity/lib/FHE.sol\<close>) is
  imported by the contract and is not under src. The spec calls a ciphertext handle
  an opaque reference to an encrypted value, with an initialized flag, an encrypted
  zero and a homomorphic add. A \<^verbatim>\<open>euint32\<close> is therefore either the zero handle, which
  every storage slot holds before it is written, or a handle to an encrypted 32-bit
  value; the model names an initialized handle by the value it encrypts.
\<close>

datatype euint32 = Uninitialized | Encrypted uint32

text \<open>Modelled from the spec: \<^verbatim>\<open>FHE.isInitialized\<close>, false on the zero handle only.\<close>

fun FHE_isInitialized :: "euint32 \<Rightarrow> bool" where
  "FHE_isInitialized Uninitialized = False"
| "FHE_isInitialized (Encrypted _) = True"

text \<open>Modelled from the spec: \<^verbatim>\<open>FHE.asEuint32\<close>, the encryption of a constant.\<close>

definition FHE_asEuint32 :: "uint32 \<Rightarrow> euint32" where
  "FHE_asEuint32 v = Encrypted v"

text \<open>The value behind a handle; the library reads the zero handle as zero.\<close>

fun cleartext :: "euint32 \<Rightarrow> uint32" where
  "cleartext Uninitialized = 0"
| "cleartext (Encrypted v) = v"

text \<open>
  Modelled from the spec: \<^verbatim>\<open>FHE.add\<close>, the homomorphic sum of two \<^verbatim>\<open>euint32\<close>; the
  sum of 32-bit values wraps around.
\<close>

definition FHE_add :: "euint32 \<Rightarrow> euint32 \<Rightarrow> euint32" where
  "FHE_add a b = Encrypted (cleartext a + cleartext b)"

text \<open>
  What the contract calls and does not define: the oracle's signature check
  (\<^verbatim>\<open>FHE.checkSignatures\<close>, which reverts on a bad proof), \<^verbatim>\<open>abi.decode\<close> at the two
  types the callbacks use (\<open>None\<close> where it reverts) and \<^verbatim>\<open>keccak256\<close> of the packed
  version string. They are parameters of the model.
\<close>

record env =
  checkSignatures :: "uint256 \<Rightarrow> bytes \<Rightarrow> bytes \<Rightarrow> bool"
  abi_decode_strings :: "bytes \<Rightarrow> string list option"
  abi_decode_uint32 :: "bytes \<Rightarrow> uint32 option"
  keccak256 :: "string \<Rightarrow> uint256"

subsection \<open>Storage\<close>

record EncryptedPackageData =
  id_pkg :: uint256
  encryptedName :: euint32
  encryptedVersion :: euint32
  encryptedDescription :: euint32
  timestamp :: uint256

record DecryptedPackageData =
  name :: string
  version :: string
  description :: string
  isRevealed :: bool

datatype event =
  PackageSubmitted uint256 uint256
| DecryptionRequested uint256
| PackageDecrypted uint256

text \<open>
  The callback a decryption request names, and the request as it is sent to the
  oracle: the id the oracle gave it, the ciphertexts and the callback.
\<close>

datatype selector = Sel_decryptPackage | Sel_decryptVersionCount

type_synonym oracle_request = "uint256 \<times> euint32 list \<times> selector"

record contract =
  packageCount :: uint256
  encryptedPackages :: "uint256 \<Rightarrow> EncryptedPackageData"
  decryptedPackages :: "uint256 \<Rightarrow> DecryptedPackageData"
  encryptedVersionCount :: "string \<Rightarrow> euint32"
  versionList :: "string list"
  requestToPackageId :: "uint256 \<Rightarrow> uint256"
  events :: "event list"
  requested :: "oracle_request list"

text \<open>The storage of a freshly deployed contract: every slot is zero.\<close>

definition zero_encrypted :: EncryptedPackageData where
  "zero_encrypted =
     \<lparr>id_pkg = 0, encryptedName = Uninitialized, encryptedVersion = Uninitialized,
      encryptedDescription = Uninitialized, timestamp = 0\<rparr>"

definition zero_decrypted :: DecryptedPackageData where
  "zero_decrypted = \<lparr>name = [], version = [], description = [], isRevealed = False\<rparr>"

definition deployed :: contract where
  "deployed =
     \<lparr>packageCount = 0,
      encryptedPackages = (\<lambda>_. zero_encrypted),
      decryptedPackages = (\<lambda>_. zero_decrypted),
      encryptedVersionCount = (\<lambda>_. Uninitialized),
      versionList = [],
      requestToPackageId = (\<lambda>_. 0),
      events = [],
      requested = []\<rparr>"

text \<open>
  The reverts of the contract: its three \<^verbatim>\<open>require\<close> messages and the revert of
  \<^verbatim>\<open>getVersionFromHash\<close>, the revert of \<^verbatim>\<open>FHE.checkSignatures\<close>, of \<^verbatim>\<open>abi.decode\<close>, and
  the two panics of checked arithmetic and of indexing an array.
\<close>

datatype error =
  Already_decrypted
| Invalid_request
| Version_not_found
| InvalidKMSSignatures
| DecodeError
| Panic_overflow
| Panic_index

subsection \<open>The functions of the contract\<close>

text \<open>
  \<^verbatim>\<open>submitEncryptedPackage\<close>: \<^verbatim>\<open>packageCount += 1\<close> is checked arithmetic, a panic at
  the largest \<^verbatim>\<open>uint256\<close>. \<open>now\<close> is \<^verbatim>\<open>block.timestamp\<close>.
\<close>

definition submitEncryptedPackage ::
  "uint256 \<Rightarrow> euint32 \<Rightarrow> euint32 \<Rightarrow> euint32 \<Rightarrow> contract \<Rightarrow> error + contract" where
  "submitEncryptedPackage now eName eVersion eDescription s =
     (if packageCount s = - 1 then Inl Panic_overflow
      else
        let newId = packageCount s + 1 in
        Inr (s\<lparr>packageCount := newId,
               encryptedPackages := (encryptedPackages s)
                 (newId := \<lparr>id_pkg = newId, encryptedName = eName,
                             encryptedVersion = eVersion,
                             encryptedDescription = eDescription, timestamp = now\<rparr>),
               decryptedPackages := (decryptedPackages s)
                 (newId := \<lparr>name = [], version = [], description = [],
                             isRevealed = False\<rparr>),
               events := events s @ [PackageSubmitted newId now]\<rparr>))"

text \<open>
  Modelled from the spec: \<^verbatim>\<open>FHE.requestDecryption\<close>, of the library that is not under
  src, forwards the ciphertexts and the callback to the oracle and returns the
  request id the oracle assigns. The model takes that id as the argument \<open>reqId\<close> of
  the two request functions and appends the request to \<open>requested\<close>.

  \<^verbatim>\<open>requestPackageDecryption\<close>: the modifier \<^verbatim>\<open>onlyContributor\<close> has an empty body.
\<close>

definition requestPackageDecryption :: "uint256 \<Rightarrow> uint256 \<Rightarrow> contract \<Rightarrow> error + contract" where
  "requestPackageDecryption reqId packageId s =
     (let pkg = encryptedPackages s packageId in
      if isRevealed (decryptedPackages s packageId) then Inl Already_decrypted
      else
        let ciphertexts = [encryptedName pkg, encryptedVersion pkg, encryptedDescription pkg] in
        Inr (s\<lparr>requestToPackageId := (requestToPackageId s)(reqId := packageId),
               requested := requested s @ [(reqId, ciphertexts, Sel_decryptPackage)],
               events := events s @ [DecryptionRequested packageId]\<rparr>))"

text \<open>
  The version-count update at the end of \<^verbatim>\<open>decryptPackage\<close>: the counter of the
  version is set to an encrypted zero and the version listed when the counter is not
  initialized, then one is added.
\<close>

definition bump :: "string \<Rightarrow> contract \<Rightarrow> contract" where
  "bump v s =
     (let s1 =
        (if \<not> FHE_isInitialized (encryptedVersionCount s v)
         then s\<lparr>encryptedVersionCount := (encryptedVersionCount s)(v := FHE_asEuint32 0),
                versionList := versionList s @ [v]\<rparr>
         else s)
      in s1\<lparr>encryptedVersionCount := (encryptedVersionCount s1)
               (v := FHE_add (encryptedVersionCount s1 v) (FHE_asEuint32 1))\<rparr>)"

text \<open>
  \<^verbatim>\<open>decryptPackage\<close>: reading \<^verbatim>\<open>results[0]\<close>, \<^verbatim>\<open>results[1]\<close>, \<^verbatim>\<open>results[2]\<close> panics
  when the decoded array is shorter than three; the revert undoes what was written
  before it.
\<close>

definition decryptPackage :: "env \<Rightarrow> uint256 \<Rightarrow> bytes \<Rightarrow> bytes \<Rightarrow> contract \<Rightarrow> error + contract" where
  "decryptPackage E requestId cleartexts proof s =
     (let packageId = requestToPackageId s requestId in
      if packageId = 0 then Inl Invalid_request
      else if isRevealed (decryptedPackages s packageId) then Inl Already_decrypted
      else if \<not> checkSignatures E requestId cleartexts proof then Inl InvalidKMSSignatures
      else
        (case abi_decode_strings E cleartexts of
           None \<Rightarrow> Inl DecodeError
         | Some results \<Rightarrow>
             if length results < 3 then Inl Panic_index
             else
               let dPkg = \<lparr>name = results ! 0, version = results ! 1,
                           description = results ! 2, isRevealed = True\<rparr>;
                   s1 = s\<lparr>decryptedPackages := (decryptedPackages s)(packageId := dPkg)\<rparr>;
                   s2 = bump (version dPkg) s1
               in Inr (s2\<lparr>events := events s2 @ [PackageDecrypted packageId]\<rparr>)))"

definition getDecryptedPackage :: "contract \<Rightarrow> uint256 \<Rightarrow> string \<times> string \<times> string \<times> bool" where
  "getDecryptedPackage s packageId =
     (let pkg = decryptedPackages s packageId in
      (name pkg, version pkg, description pkg, isRevealed pkg))"

definition getEncryptedVersionCount :: "contract \<Rightarrow> string \<Rightarrow> euint32" where
  "getEncryptedVersionCount s v = encryptedVersionCount s v"

definition bytes32ToUint :: "uint256 \<Rightarrow> uint256" where
  "bytes32ToUint b = b"

definition requestVersionCountDecryption ::
  "env \<Rightarrow> uint256 \<Rightarrow> string \<Rightarrow> contract \<Rightarrow> error + contract" where
  "requestVersionCountDecryption E reqId v s =
     (let count = encryptedVersionCount s v in
      if \<not> FHE_isInitialized count then Inl Version_not_found
      else
        Inr (s\<lparr>requestToPackageId := (requestToPackageId s)
                 (reqId := bytes32ToUint (keccak256 E v)),
               requested := requested s @ [(reqId, [count], Sel_decryptVersionCount)]\<rparr>))"

text \<open>The loop of \<^verbatim>\<open>getVersionFromHash\<close> over \<^verbatim>\<open>versionList\<close>, first match wins.\<close>

fun scanVersions :: "env \<Rightarrow> string list \<Rightarrow> uint256 \<Rightarrow> error + string" where
  "scanVersions E [] h = Inl Version_not_found"
| "scanVersions E (v # vs) h =
     (if bytes32ToUint (keccak256 E v) = h then Inr v else scanVersions E vs h)"

definition getVersionFromHash :: "env \<Rightarrow> contract \<Rightarrow> uint256 \<Rightarrow> error + string" where
  "getVersionFromHash E s h = scanVersions E (versionList s) h"

text \<open>
  \<^verbatim>\<open>decryptVersionCount\<close>: the version and the decoded count are local variables that
  nothing reads; the function ends after the decode.
\<close>

definition decryptVersionCount :: "env \<Rightarrow> uint256 \<Rightarrow> bytes \<Rightarrow> bytes \<Rightarrow> contract \<Rightarrow> error + contract" where
  "decryptVersionCount E requestId cleartexts proof s =
     (let versionHash = requestToPackageId s requestId in
      case getVersionFromHash E s versionHash of
        Inl e \<Rightarrow> Inl e
      | Inr v \<Rightarrow>
          if \<not> checkSignatures E requestId cleartexts proof then Inl InvalidKMSSignatures
          else
            (case abi_decode_uint32 E cleartexts of
               None \<Rightarrow> Inl DecodeError
             | Some count \<Rightarrow> Inr s))"

subsection \<open>Transactions\<close>

text \<open>
  A call of a state-changing function with its arguments; for the two request
  functions the first argument is the request id the oracle returns. A transaction
  that reverts leaves the storage as it was.
\<close>

datatype call =
  Submit uint256 euint32 euint32 euint32
| RequestPackage uint256 uint256
| DecryptPackage uint256 bytes bytes
| RequestVersionCount uint256 string
| DecryptVersionCount uint256 bytes bytes

fun exec :: "env \<Rightarrow> call \<Rightarrow> contract \<Rightarrow> error + contract" where
  "exec E (Submit now a b c) s = submitEncryptedPackage now a b c s"
| "exec E (RequestPackage reqId packageId) s = requestPackageDecryption reqId packageId s"
| "exec E (DecryptPackage requestId cleartexts proof) s =
     decryptPackage E requestId cleartexts proof s"
| "exec E (RequestVersionCount reqId v) s = requestVersionCountDecryption E reqId v s"
| "exec E (DecryptVersionCount requestId cleartexts proof) s =
     decryptVersionCount E requestId cleartexts proof s"

definition transact :: "env \<Rightarrow> contract \<Rightarrow> call \<Rightarrow> contract" where
  "transact E s c = (case exec E c s of Inl _ \<Rightarrow> s | Inr s' \<Rightarrow> s')"

fun run :: "env \<Rightarrow> contract \<Rightarrow> call list \<Rightarrow> contract" where
  "run E s [] = s"
| "run E s (c # cs) = run E (transact E s c) cs"

subsection \<open>Observing a run\<close>

text \<open>
  The version string a call commits: that of the decoded payload when the call is a
  \<^verbatim>\<open>decryptPackage\<close> that does not revert, none otherwise. \<open>reveals\<close> counts the calls
  of a run that commit a given version.
\<close>

fun revealedVersion :: "env \<Rightarrow> contract \<Rightarrow> call \<Rightarrow> string option" where
  "revealedVersion E s (DecryptPackage requestId cleartexts proof) =
     (case decryptPackage E requestId cleartexts proof s of
        Inl _ \<Rightarrow> None
      | Inr _ \<Rightarrow> map_option (\<lambda>results. results ! 1) (abi_decode_strings E cleartexts))"
| "revealedVersion E s _ = None"

fun reveals :: "env \<Rightarrow> contract \<Rightarrow> call list \<Rightarrow> string \<Rightarrow> nat" where
  "reveals E s [] v = 0"
| "reveals E s (c # cs) v =
     (if revealedVersion E s c = Some v then 1 else 0) + reveals E (transact E s c) cs v"

text \<open>
  The package id a call commits: the one its request id maps to when the call is a
  \<^verbatim>\<open>decryptPackage\<close> that does not revert. \<open>committed\<close> says that some call of a run
  commits a given id.
\<close>

fun commits :: "env \<Rightarrow> contract \<Rightarrow> call \<Rightarrow> uint256 \<Rightarrow> bool" where
  "commits E s (DecryptPackage requestId cleartexts proof) packageId =
     (case decryptPackage E requestId cleartexts proof s of
        Inl _ \<Rightarrow> False
      | Inr _ \<Rightarrow> requestToPackageId s requestId = packageId)"
| "commits E s _ packageId = False"

fun committed :: "env \<Rightarrow> contract \<Rightarrow> call list \<Rightarrow> uint256 \<Rightarrow> bool" where
  "committed E s [] packageId = False"
| "committed E s (c # cs) packageId =
     (commits E s c packageId \<or> committed E (transact E s c) cs packageId)"

text \<open>The request ids the oracle hands out during a run, one per request call.\<close>

fun requestIds :: "call list \<Rightarrow> uint256 list" where
  "requestIds [] = []"
| "requestIds (RequestPackage reqId _ # cs) = reqId # requestIds cs"
| "requestIds (RequestVersionCount reqId _ # cs) = reqId # requestIds cs"
| "requestIds (_ # cs) = requestIds cs"

subsection \<open>A sample environment and sample runs\<close>

text \<open>
  An environment to run the contract in: the oracle signs with the proof \<open>[1]\<close>, the
  payloads \<open>[1]\<close> and \<open>[2]\<close> decode to two packages of version 1.0, a one-byte payload
  decodes to a count, and the hash of 1.0 is its Keccak-256; every other string gets
  the Keccak-256 of 2.0.
\<close>

definition sample_env :: env where
  "sample_env =
     \<lparr>checkSignatures = (\<lambda>requestId cleartexts proof. proof = [1]),
      abi_decode_strings =
        (\<lambda>c. if c = [1] then Some [''alpha'', ''1.0'', ''desc'']
             else if c = [2] then Some [''beta'', ''1.0'', ''more'']
             else None),
      abi_decode_uint32 = (\<lambda>c. case c of [b] \<Rightarrow> Some (ucast b) | _ \<Rightarrow> None),
      keccak256 =
        (\<lambda>v. if v = ''1.0''
             then 0xe6bbd6277e1bf288eed5e8d1780f9a50b239e86b153736bceebccf4ea79d90b3
             else 0x88f72b566ae0c96f6fffac4bc8ac74909f61512ac0c06a8124d5ed420d306f90)\<rparr>"

definition sample_submit :: call where
  "sample_submit = Submit 1700000000 (Encrypted 11) (Encrypted 12) (Encrypted 13)"

text \<open>One package submitted; its reveal requested as request 7; the reveal committed.\<close>

definition submitted_run :: "call list" where
  "submitted_run = [sample_submit]"

definition pending_run :: "call list" where
  "pending_run = [sample_submit, RequestPackage 7 1]"

definition revealed_run :: "call list" where
  "revealed_run = [sample_submit, RequestPackage 7 1, DecryptPackage 7 [1] [1]]"

text \<open>After the reveal, the count of version 1.0 is requested as request 8.\<close>

definition count_pending_run :: "call list" where
  "count_pending_run = revealed_run @ [RequestVersionCount 8 ''1.0'']"

text \<open>Two packages of version 1.0 submitted and revealed.\<close>

definition two_reveals_run :: "call list" where
  "two_reveals_run =
     [sample_submit, sample_submit, RequestPackage 7 1, RequestPackage 8 2,
      DecryptPackage 7 [1] [1], DecryptPackage 8 [2] [1]]"

text \<open>A reveal of package id 1 requested and committed before any package is submitted.\<close>

definition early_run :: "call list" where
  "early_run = [RequestPackage 7 1, DecryptPackage 7 [1] [1]]"

text \<open>
  A long run: \<open>cycles n\<close> submits \<open>n\<close> packages and, after each submission, requests
  the reveal of the new package and commits it with version 1.0. The oracle numbers
  the requests from 0.
\<close>

definition cycle :: "nat \<Rightarrow> call list" where
  "cycle n =
     [sample_submit, RequestPackage (of_nat n) (of_nat n + 1), DecryptPackage (of_nat n) [1] [1]]"

fun cycles :: "nat \<Rightarrow> call list" where
  "cycles 0 = []"
| "cycles (Suc n) = cycles n @ cycle n"

section \<open>Properties\<close>

lemmas sample_simps = sample_env_def sample_submit_def submitted_run_def pending_run_def
  revealed_run_def count_pending_run_def two_reveals_run_def early_run_def
  deployed_def zero_decrypted_def zero_encrypted_def transact_def
  submitEncryptedPackage_def requestPackageDecryption_def decryptPackage_def bump_def
  requestVersionCountDecryption_def decryptVersionCount_def getVersionFromHash_def
  getDecryptedPackage_def getEncryptedVersionCount_def bytes32ToUint_def FHE_asEuint32_def
  FHE_add_def Let_def

subsection \<open>The id counter\<close>

lemma next_nonzero: "(x :: uint256) \<noteq> - 1 \<Longrightarrow> x + 1 \<noteq> 0"
  by (simp add: add_eq_0_iff2)

lemma unat_next: "(x :: uint256) \<noteq> - 1 \<Longrightarrow> unat (x + 1) = Suc (unat x)"
proof -
  assume "x \<noteq> - 1"
  then have "1 + x \<noteq> 0"
    by (simp add: add_eq_0_iff)
  then have "unat (1 + x) = Suc (unat x)"
    by (rule unatSuc)
  then show ?thesis
    by (simp add: add.commute)
qed

lemma below_next: "(x :: uint256) \<noteq> - 1 \<Longrightarrow> p \<le> x \<Longrightarrow> p \<noteq> x + 1 \<and> p \<le> x + 1"
  by (auto simp: word_le_nat_alt unat_next)

subsection \<open>What a transaction leaves alone\<close>

lemma decryptVersionCount_same: "decryptVersionCount E r c p s = Inr s' \<Longrightarrow> s' = s"
  by (auto simp: decryptVersionCount_def Let_def split: sum.splits if_splits option.splits)

lemma transact_DecryptVersionCount: "transact E s (DecryptVersionCount r c p) = s"
  by (auto simp: transact_def dest: decryptVersionCount_same split: sum.splits)

lemma packageCount_transact: "packageCount s \<le> packageCount (transact E s c)"
  by (cases c)
    (auto simp: transact_def submitEncryptedPackage_def requestPackageDecryption_def
      decryptPackage_def bump_def requestVersionCountDecryption_def Let_def below_next
      dest: decryptVersionCount_same split: sum.splits if_splits option.splits)

subsection \<open>The version counters along a run\<close>

lemma cleartext_zero_handle: "\<not> FHE_isInitialized h \<Longrightarrow> cleartext h = 0"
  by (cases h) simp_all

lemma count_transact:
  "encryptedVersionCount (transact E s c) v =
     (if revealedVersion E s c = Some v
      then Encrypted (cleartext (encryptedVersionCount s v) + 1)
      else encryptedVersionCount s v)"
  by (cases c)
    (auto simp: transact_def submitEncryptedPackage_def requestPackageDecryption_def
      decryptPackage_def bump_def requestVersionCountDecryption_def Let_def
      FHE_add_def FHE_asEuint32_def cleartext_zero_handle
      dest: decryptVersionCount_same split: sum.splits if_splits option.splits)

lemma count_run:
  "encryptedVersionCount (run E s cs) v =
     (if reveals E s cs v = 0 then encryptedVersionCount s v
      else Encrypted (cleartext (encryptedVersionCount s v) + of_nat (reveals E s cs v)))"
  by (induction cs arbitrary: s) (auto simp: count_transact add.assoc)

subsection \<open>Reading a counter\<close>

text \<open>
  C10. \<^verbatim>\<open>getEncryptedVersionCount\<close> has no revert: for every version string it returns
  the handle stored for it. After any run from deployment in which no reveal
  committed the version, that handle is the zero handle, which \<^verbatim>\<open>FHE.isInitialized\<close>
  rejects; the caller has to test it.
\<close>

theorem getEncryptedVersionCount_unobserved:
  "getEncryptedVersionCount (run E deployed cs) v = encryptedVersionCount (run E deployed cs) v
   \<and> (reveals E deployed cs v = 0 \<longrightarrow>
        getEncryptedVersionCount (run E deployed cs) v = Uninitialized
        \<and> \<not> FHE_isInitialized (getEncryptedVersionCount (run E deployed cs) v))"
  by (simp add: getEncryptedVersionCount_def count_run) (simp add: deployed_def)

theorem getEncryptedVersionCount_unobserved_witness:
  "reveals sample_env deployed revealed_run ''2.0'' = 0
   \<and> getEncryptedVersionCount (run sample_env deployed revealed_run) ''2.0'' = Uninitialized
   \<and> getEncryptedVersionCount (run sample_env deployed revealed_run) ''1.0'' = Encrypted 1"
  using getEncryptedVersionCount_unobserved [of sample_env revealed_run "''2.0''"]
  by (simp add: sample_simps)

subsection \<open>A callback with a bad proof\<close>

text \<open>
  C2. When \<^verbatim>\<open>FHE.checkSignatures\<close> rejects the proof, both callbacks revert, whatever
  the request id and the payload, so the transaction leaves the whole storage as it
  was. The signature check is the first step after the lookups: \<^verbatim>\<open>decryptPackage\<close>
  reverts with the oracle's error unless the request id is unknown or its package
  already revealed, and \<^verbatim>\<open>decryptVersionCount\<close> unless the version lookup reverts;
  neither decodes or writes before it.
\<close>

theorem bad_proof_changes_nothing:
  assumes "\<not> checkSignatures E requestId cleartexts proof"
  shows "transact E s (DecryptPackage requestId cleartexts proof) = s
    \<and> transact E s (DecryptVersionCount requestId cleartexts proof) = s
    \<and> decryptPackage E requestId cleartexts proof s =
        (if requestToPackageId s requestId = 0 then Inl Invalid_request
         else if isRevealed (decryptedPackages s (requestToPackageId s requestId))
         then Inl Already_decrypted
         else Inl InvalidKMSSignatures)
    \<and> decryptVersionCount E requestId cleartexts proof s =
        (case getVersionFromHash E s (requestToPackageId s requestId) of
           Inl e \<Rightarrow> Inl e
         | Inr v \<Rightarrow> Inl InvalidKMSSignatures)"
  using assms
  by (simp add: transact_def decryptPackage_def decryptVersionCount_def Let_def
      split: sum.splits)

theorem bad_proof_changes_nothing_witness:
  "\<not> checkSignatures sample_env 7 [1] [9]
   \<and> requestToPackageId (run sample_env deployed pending_run) 7 = 1
   \<and> \<not> isRevealed (decryptedPackages (run sample_env deployed pending_run) 1)
   \<and> abi_decode_strings sample_env [1] = Some [''alpha'', ''1.0'', ''desc'']
   \<and> decryptPackage sample_env 7 [1] [9] (run sample_env deployed pending_run)
       = Inl InvalidKMSSignatures
   \<and> transact sample_env (run sample_env deployed pending_run) (DecryptPackage 7 [1] [9])
       = run sample_env deployed pending_run"
  using bad_proof_changes_nothing
    [of sample_env 7 "[1]" "[9]" "run sample_env deployed pending_run"]
  by (simp add: sample_simps)

subsection \<open>The revealed data of a submitted package\<close>

lemma decrypted_transact:
  "pid \<le> packageCount s \<Longrightarrow> \<not> commits E s c pid \<Longrightarrow>
   decryptedPackages (transact E s c) pid = decryptedPackages s pid"
  by (cases c)
    (auto simp: transact_def submitEncryptedPackage_def requestPackageDecryption_def
      decryptPackage_def bump_def requestVersionCountDecryption_def Let_def below_next
      dest: decryptVersionCount_same split: sum.splits if_splits option.splits)

lemma decrypted_run:
  "pid \<le> packageCount s \<Longrightarrow> \<not> committed E s cs pid \<Longrightarrow>
   decryptedPackages (run E s cs) pid = decryptedPackages s pid"
proof (induction cs arbitrary: s)
  case Nil
  then show ?case by simp
next
  case (Cons c cs)
  have "pid \<le> packageCount (transact E s c)"
    using Cons.prems(1) packageCount_transact [of s E c] by (rule order_trans)
  moreover have "\<not> committed E (transact E s c) cs pid" and "\<not> commits E s c pid"
    using Cons.prems(2) by simp_all
  ultimately show ?case
    using Cons.IH [of "transact E s c"] Cons.prems(1) by (simp add: decrypted_transact)
qed

lemma revealed_transact:
  "pid \<le> packageCount s \<Longrightarrow> isRevealed (decryptedPackages s pid) \<Longrightarrow>
   isRevealed (decryptedPackages (transact E s c) pid)"
  by (cases c)
    (auto simp: transact_def submitEncryptedPackage_def requestPackageDecryption_def
      decryptPackage_def bump_def requestVersionCountDecryption_def Let_def below_next
      dest: decryptVersionCount_same split: sum.splits if_splits option.splits)

lemma revealed_stays:
  "pid \<le> packageCount s \<Longrightarrow> isRevealed (decryptedPackages s pid) \<Longrightarrow>
   isRevealed (decryptedPackages (run E s cs) pid)"
proof (induction cs arbitrary: s)
  case Nil
  then show ?case by simp
next
  case (Cons c cs)
  have "pid \<le> packageCount (transact E s c)"
    using Cons.prems(1) packageCount_transact [of s E c] by (rule order_trans)
  moreover have "isRevealed (decryptedPackages (transact E s c) pid)"
    using Cons.prems by (rule revealed_transact)
  ultimately show ?case
    using Cons.IH [of "transact E s c"] by simp
qed

lemma request_transact:
  "r \<notin> set (requestIds [c]) \<Longrightarrow> requestToPackageId (transact E s c) r = requestToPackageId s r"
  by (cases c)
    (auto simp: transact_def submitEncryptedPackage_def requestPackageDecryption_def
      decryptPackage_def bump_def requestVersionCountDecryption_def Let_def
      dest: decryptVersionCount_same split: sum.splits if_splits option.splits)

lemma requestIds_Cons: "r \<notin> set (requestIds (c # cs)) \<Longrightarrow>
  r \<notin> set (requestIds [c]) \<and> r \<notin> set (requestIds cs)"
  by (cases c) auto

lemma settled_run:
  "pid \<le> packageCount s \<Longrightarrow> isRevealed (decryptedPackages s pid) \<Longrightarrow>
   r \<notin> set (requestIds cs) \<Longrightarrow>
   pid \<le> packageCount (run E s cs) \<and> isRevealed (decryptedPackages (run E s cs) pid)
   \<and> requestToPackageId (run E s cs) r = requestToPackageId s r"
proof (induction cs arbitrary: s)
  case Nil
  then show ?case by simp
next
  case (Cons c cs)
  have fresh: "r \<notin> set (requestIds [c])" "r \<notin> set (requestIds cs)"
    using Cons.prems(3) requestIds_Cons by blast+
  have "pid \<le> packageCount (transact E s c)"
    using Cons.prems(1) packageCount_transact [of s E c] by (rule order_trans)
  moreover have "isRevealed (decryptedPackages (transact E s c) pid)"
    using Cons.prems(1,2) by (rule revealed_transact)
  ultimately have "pid \<le> packageCount (run E (transact E s c) cs)
    \<and> isRevealed (decryptedPackages (run E (transact E s c) cs) pid)
    \<and> requestToPackageId (run E (transact E s c) cs) r = requestToPackageId (transact E s c) r"
    using fresh(2) by (rule Cons.IH)
  then show ?case
    using fresh(1) by (simp add: request_transact)
qed

lemma decryptPackage_Inr:
  "decryptPackage E r c p s = Inr s1 \<Longrightarrow>
   requestToPackageId s r \<noteq> 0 \<and> requestToPackageId s1 r = requestToPackageId s r
   \<and> isRevealed (decryptedPackages s1 (requestToPackageId s r))
   \<and> packageCount s1 = packageCount s"
  by (auto simp: decryptPackage_def bump_def Let_def split: if_splits option.splits)

text \<open>
  C8. A successful \<^verbatim>\<open>submitEncryptedPackage\<close> allocates the id after the current
  \<^verbatim>\<open>packageCount\<close>, which is 0 at deployment, so ids run 1, 2, ... and 0 is never
  allocated; the package is stored under that id. After any run in which no
  \<^verbatim>\<open>decryptPackage\<close> committed that id, \<^verbatim>\<open>getDecryptedPackage\<close> returns three empty
  strings and \<^verbatim>\<open>isRevealed = false\<close>. The id 0 stands for no package: a request id
  that maps to 0, as every request id does at deployment, is an invalid request.
\<close>

theorem read_before_reveal:
  assumes "submitEncryptedPackage now eName eVersion eDescription s = Inr s1"
    and "\<not> committed E s1 cs (packageCount s1)"
  shows "getDecryptedPackage (run E s1 cs) (packageCount s1) = ([], [], [], False)
    \<and> unat (packageCount s1) = Suc (unat (packageCount s))
    \<and> packageCount s1 \<noteq> 0
    \<and> packageCount deployed = 0
    \<and> id_pkg (encryptedPackages s1 (packageCount s1)) = packageCount s1
    \<and> decryptPackage E requestId cleartexts proof deployed = Inl Invalid_request"
proof -
  from assms(1) have ok: "packageCount s \<noteq> - 1"
    and new: "packageCount s1 = packageCount s + 1"
    and empty: "decryptedPackages s1 (packageCount s1) =
      \<lparr>name = [], version = [], description = [], isRevealed = False\<rparr>"
    and stored: "id_pkg (encryptedPackages s1 (packageCount s1)) = packageCount s1"
    by (auto simp: submitEncryptedPackage_def Let_def split: if_splits)
  have "decryptedPackages (run E s1 cs) (packageCount s1) = decryptedPackages s1 (packageCount s1)"
    using assms(2) by (simp add: decrypted_run)
  then have "getDecryptedPackage (run E s1 cs) (packageCount s1) = ([], [], [], False)"
    by (simp add: getDecryptedPackage_def empty)
  moreover have "unat (packageCount s1) = Suc (unat (packageCount s))"
    using ok new by (simp add: unat_next)
  moreover have "packageCount s1 \<noteq> 0"
    using ok new by (simp add: next_nonzero)
  moreover have "packageCount deployed = 0"
    by (simp add: deployed_def)
  moreover have "decryptPackage E requestId cleartexts proof deployed = Inl Invalid_request"
    by (simp add: decryptPackage_def deployed_def)
  ultimately show ?thesis
    using stored by simp
qed

theorem read_before_reveal_witness:
  "submitEncryptedPackage 1700000000 (Encrypted 11) (Encrypted 12) (Encrypted 13) deployed
     = Inr (run sample_env deployed submitted_run)
   \<and> packageCount (run sample_env deployed submitted_run) = 1
   \<and> \<not> committed sample_env (run sample_env deployed submitted_run)
        [RequestPackage 7 1, DecryptPackage 7 [1] [9]] 1
   \<and> getDecryptedPackage
        (run sample_env (run sample_env deployed submitted_run)
          [RequestPackage 7 1, DecryptPackage 7 [1] [9]]) 1 = ([], [], [], False)"
  using read_before_reveal
    [of 1700000000 "Encrypted 11" "Encrypted 12" "Encrypted 13" deployed
      "run sample_env deployed submitted_run" sample_env
      "[RequestPackage 7 1, DecryptPackage 7 [1] [9]]"]
  by (simp add: sample_simps)

subsection \<open>Replayed callbacks\<close>

text \<open>
  C1, as the contract has it. Neither callback removes or marks the request id; a
  replay of \<^verbatim>\<open>decryptPackage\<close> is stopped by the \<^verbatim>\<open>isRevealed\<close> flag of the package. Once
  \<^verbatim>\<open>decryptPackage\<close> has succeeded for a request id whose package id was submitted
  (it is at most \<^verbatim>\<open>packageCount\<close>), then after any further calls in which the oracle
  hands out other request ids, \<^verbatim>\<open>decryptPackage\<close> for that request id reverts with
  \<^verbatim>\<open>Already decrypted\<close> for every payload and proof, and neither callback changes the
  storage.
\<close>

theorem replay_rejected:
  assumes "decryptPackage E requestId cleartexts proof s = Inr s1"
    and "requestToPackageId s requestId \<le> packageCount s"
    and "requestId \<notin> set (requestIds cs)"
  shows "decryptPackage E requestId cleartexts' proof' (run E s1 cs) = Inl Already_decrypted
    \<and> transact E (run E s1 cs) (DecryptPackage requestId cleartexts' proof') = run E s1 cs
    \<and> transact E (run E s1 cs) (DecryptVersionCount requestId cleartexts' proof') = run E s1 cs"
proof -
  let ?pid = "requestToPackageId s requestId"
  from assms(1) have first: "?pid \<noteq> 0" "requestToPackageId s1 requestId = ?pid"
    "isRevealed (decryptedPackages s1 ?pid)" "packageCount s1 = packageCount s"
    using decryptPackage_Inr by blast+
  have "?pid \<le> packageCount s1"
    using assms(2) first(4) by simp
  then have later: "isRevealed (decryptedPackages (run E s1 cs) ?pid)"
    "requestToPackageId (run E s1 cs) requestId = ?pid"
    using first(2,3) assms(3) settled_run [of ?pid s1 requestId cs E] by simp_all
  then have rejected:
    "decryptPackage E requestId cleartexts' proof' (run E s1 cs) = Inl Already_decrypted"
    using first(1) by (simp add: decryptPackage_def)
  then have "transact E (run E s1 cs) (DecryptPackage requestId cleartexts' proof') = run E s1 cs"
    by (simp add: transact_def)
  with rejected show ?thesis
    by (simp add: transact_DecryptVersionCount)
qed

theorem replay_rejected_witness:
  "decryptPackage sample_env 7 [1] [1] (run sample_env deployed pending_run)
     = Inr (run sample_env deployed revealed_run)
   \<and> requestToPackageId (run sample_env deployed pending_run) 7
       \<le> packageCount (run sample_env deployed pending_run)
   \<and> 7 \<notin> set (requestIds [sample_submit, RequestPackage 9 2])
   \<and> decryptPackage sample_env 7 [2] [1]
       (run sample_env (run sample_env deployed revealed_run) [sample_submit, RequestPackage 9 2])
     = Inl Already_decrypted"
  using replay_rejected
    [of sample_env 7 "[1]" "[1]" "run sample_env deployed pending_run"
      "run sample_env deployed revealed_run" "[sample_submit, RequestPackage 9 2]" "[2]" "[1]"]
  by (simp add: sample_simps)

text \<open>
  The count callback has no such flag: after \<^verbatim>\<open>decryptVersionCount\<close> has succeeded for
  request 8, the same call succeeds again.
\<close>

theorem replay_rejected_counterexample:
  "decryptVersionCount sample_env 8 [5] [1] (run sample_env deployed count_pending_run)
     = Inr (run sample_env deployed count_pending_run)
   \<and> decryptVersionCount sample_env 8 [5] [1]
       (transact sample_env (run sample_env deployed count_pending_run)
         (DecryptVersionCount 8 [5] [1]))
     = Inr (run sample_env deployed count_pending_run)"
  by (simp add: sample_simps)

subsection \<open>Requesting a reveal\<close>




text \<open>
  What the two request functions do check: the count request that its counter is
  initialized, the package request that its package is not yet revealed.
\<close>

lemma count_request_needs_counter:
  "requestVersionCountDecryption E reqId v s = Inr s' \<Longrightarrow>
   FHE_isInitialized (encryptedVersionCount s v)"
  by (auto simp: requestVersionCountDecryption_def Let_def split: if_splits)

lemma package_request_needs_unrevealed:
  "requestPackageDecryption reqId packageId s = Inr s' \<Longrightarrow>
   \<not> isRevealed (decryptedPackages s packageId)"
  by (auto simp: requestPackageDecryption_def Let_def split: if_splits)


subsection \<open>The count callback\<close>

text \<open>
  C5. A \<^verbatim>\<open>decryptVersionCount\<close> that succeeds returns the storage and the event log it
  was called in: the payload \<open>[5]\<close> decodes to the count 5, and the count is neither
  stored nor emitted.
\<close>

theorem count_is_discarded:
  "abi_decode_uint32 sample_env [5] = Some 5
   \<and> decryptVersionCount sample_env 8 [5] [1] (run sample_env deployed count_pending_run)
       = Inr (run sample_env deployed count_pending_run)
   \<and> events (transact sample_env (run sample_env deployed count_pending_run)
        (DecryptVersionCount 8 [5] [1]))
       = [PackageSubmitted 1 1700000000, DecryptionRequested 1, PackageDecrypted 1]"
  by (simp add: sample_simps)

subsection \<open>The reveal flag\<close>


subsection \<open>Record ids and version hashes\<close>




subsection \<open>The counter of a version after its reveals\<close>

lemma run_append: "run E s (xs @ ys) = run E (run E s xs) ys"
  by (induction xs arbitrary: s) simp_all

lemma reveals_append:
  "reveals E s (xs @ ys) v = reveals E s xs v + reveals E (run E s xs) ys v"
  by (induction xs arbitrary: s) simp_all

lemma of_nat_not_last: "Suc n < 2 ^ 256 \<Longrightarrow> (of_nat n :: uint256) \<noteq> - 1"
proof
  assume small: "Suc n < 2 ^ 256" and "(of_nat n :: uint256) = - 1"
  then have "(of_nat (Suc n) :: uint256) = 0"
    by simp
  then have "2 ^ 256 dvd Suc n"
    by (simp only: word_of_nat_eq_0_iff len_bit0 len_num1) simp
  with small show False
    by (auto dest: dvd_imp_le)
qed

lemma cycle_step:
  assumes "packageCount s = of_nat n" and "Suc n < 2 ^ 256"
  shows "packageCount (run sample_env s (cycle n)) = of_nat (Suc n)
    \<and> reveals sample_env s (cycle n) ''1.0'' = 1"
proof -
  have "(of_nat n :: uint256) \<noteq> - 1"
    using assms(2) by (rule of_nat_not_last)
  moreover from this have "(of_nat n :: uint256) + 1 \<noteq> 0"
    by (rule next_nonzero)
  ultimately show ?thesis
    using assms(1)
    by (simp add: cycle_def sample_env_def sample_submit_def transact_def
        submitEncryptedPackage_def requestPackageDecryption_def decryptPackage_def bump_def
        Let_def)
qed

lemma cycles_run:
  "n < 2 ^ 256 \<Longrightarrow>
   packageCount (run sample_env deployed (cycles n)) = of_nat n
   \<and> reveals sample_env deployed (cycles n) ''1.0'' = n"
proof (induction n)
  case 0
  then show ?case by (simp add: deployed_def)
next
  case (Suc n)
  then have "packageCount (run sample_env deployed (cycles n)) = of_nat n"
    and count: "reveals sample_env deployed (cycles n) ''1.0'' = n"
    by simp_all
  then have "packageCount (run sample_env (run sample_env deployed (cycles n)) (cycle n))
      = of_nat (Suc n)
    \<and> reveals sample_env (run sample_env deployed (cycles n)) (cycle n) ''1.0'' = 1"
    using Suc.prems by (intro cycle_step)
  with count show ?case
    by (simp add: run_append reveals_append)
qed

text \<open>
  C6, as the contract has it. The counter of a version is a \<^verbatim>\<open>euint32\<close>. After a run
  from deployment with N successful reveals of the version, the counter is the zero
  handle when N is 0, and otherwise an initialized handle to N modulo \<open>2\<^sup>3\<^sup>2\<close>.
\<close>

theorem count_after_reveals:
  "encryptedVersionCount (run E deployed cs) v =
     (if reveals E deployed cs v = 0 then Uninitialized
      else Encrypted (of_nat (reveals E deployed cs v)))
   \<and> FHE_isInitialized (encryptedVersionCount (run E deployed cs) v)
       = (0 < reveals E deployed cs v)
   \<and> unat (cleartext (encryptedVersionCount (run E deployed cs) v))
       = reveals E deployed cs v mod 2 ^ 32"
proof -
  have "encryptedVersionCount (run E deployed cs) v =
     (if reveals E deployed cs v = 0 then Uninitialized
      else Encrypted (of_nat (reveals E deployed cs v)))"
    by (simp add: count_run) (simp add: deployed_def)
  then show ?thesis
    by (simp add: unat_of_nat)
qed

theorem count_after_reveals_witness:
  "reveals sample_env deployed two_reveals_run ''1.0'' = 2
   \<and> encryptedVersionCount (run sample_env deployed two_reveals_run) ''1.0'' = Encrypted 2"
  using count_after_reveals [of sample_env two_reveals_run "''1.0''"]
  by (simp add: sample_simps)

text \<open>
  With no reveal the counter of version 1.0 is not an encrypted zero but the zero
  handle, whose count request reverts; after \<open>2\<^sup>3\<^sup>2\<close> packages of version 1.0 are
  submitted and revealed the counter holds an encrypted 0.
\<close>

theorem count_after_reveals_counterexample:
  "reveals sample_env deployed [] ''1.0'' = 0
   \<and> encryptedVersionCount (run sample_env deployed []) ''1.0'' \<noteq> FHE_asEuint32 0
   \<and> requestVersionCountDecryption sample_env 8 ''1.0'' (run sample_env deployed [])
       = Inl Version_not_found
   \<and> reveals sample_env deployed (cycles (2 ^ 32)) ''1.0'' = 2 ^ 32
   \<and> encryptedVersionCount (run sample_env deployed (cycles (2 ^ 32))) ''1.0'' = Encrypted 0"
proof -
  have none: "reveals sample_env deployed [] ''1.0'' = 0"
    by simp
  have zero: "encryptedVersionCount deployed ''1.0'' = Uninitialized"
    by (simp add: deployed_def)
  then have handle: "encryptedVersionCount (run sample_env deployed []) ''1.0'' \<noteq> FHE_asEuint32 0"
    by (simp add: FHE_asEuint32_def)
  have reverts: "requestVersionCountDecryption sample_env 8 ''1.0'' (run sample_env deployed [])
      = Inl Version_not_found"
    using zero by (simp add: requestVersionCountDecryption_def)
  have many: "reveals sample_env deployed (cycles (2 ^ 32)) ''1.0'' = 2 ^ 32"
    using cycles_run [of "2 ^ 32"] by simp
  have "encryptedVersionCount (run sample_env deployed (cycles (2 ^ 32))) ''1.0''
      = Encrypted (of_nat (2 ^ 32))"
    using count_run [of sample_env deployed "cycles (2 ^ 32)" "''1.0''"]
    by (simp only: many zero) simp
  then have wrapped: "encryptedVersionCount (run sample_env deployed (cycles (2 ^ 32))) ''1.0''
      = Encrypted 0"
    by simp
  from none handle reverts many wrapped show ?thesis
    by (intro conjI)
qed

end
